theory Spec2Isabelle
  imports Main
begin

section \<open>Python values\<close>

text \<open>
  The service exchanges JSON-like Python values with its callers and with the
  Bedrock client: request bodies, client responses and the result dictionaries it
  builds. A Python \<open>str\<close> is represented by its UTF-8 encoding, a \<open>dict\<close> by an
  association list in insertion order (keys are strings, lookup takes the first
  binding), a \<open>float\<close> by a mantissa and a binary exponent.
\<close>

datatype json =
    JNull
  | JBool bool
  | JInt int
  | JFloat int int
  | JStr string
  | JList "json list"
  | JDict "(string \<times> json) list"

text \<open>
  An exception is its class name (\<open>type(e).__name__\<close>) and its message (\<open>str(e)\<close>).
  Exceptions raised by the interpreter carry the class and wording of CPython 3.11.
\<close>

datatype py_exn = PyExn (exn_type: string) (exn_str: string)

type_synonym 'a result = "py_exn + 'a"

definition and_then :: "'a result \<Rightarrow> ('a \<Rightarrow> 'b result) \<Rightarrow> 'b result" where
  "and_then m f = (case m of Inl e \<Rightarrow> Inl e | Inr x \<Rightarrow> f x)"

definition quote :: "string \<Rightarrow> string" where
  "quote s = [CHR 0x27] @ s @ [CHR 0x27]"

fun py_type_name :: "json \<Rightarrow> string" where
  "py_type_name JNull = ''NoneType''"
| "py_type_name (JBool _) = ''bool''"
| "py_type_name (JInt _) = ''int''"
| "py_type_name (JFloat _ _) = ''float''"
| "py_type_name (JStr _) = ''str''"
| "py_type_name (JList _) = ''list''"
| "py_type_name (JDict _) = ''dict''"

definition type_error :: "string \<Rightarrow> py_exn" where
  "type_error msg = PyExn ''TypeError'' msg"

definition not_subscriptable :: "json \<Rightarrow> py_exn" where
  "not_subscriptable v = type_error (quote (py_type_name v) @ '' object is not subscriptable'')"

text \<open>Truth value testing (\<open>if v\<close>, \<open>not v\<close>, \<open>v and w\<close>).\<close>

fun py_truthy :: "json \<Rightarrow> bool" where
  "py_truthy JNull = False"
| "py_truthy (JBool b) = b"
| "py_truthy (JInt i) = (i \<noteq> 0)"
| "py_truthy (JFloat m e) = (m \<noteq> 0)"
| "py_truthy (JStr s) = (s \<noteq> [])"
| "py_truthy (JList xs) = (xs \<noteq> [])"
| "py_truthy (JDict kvs) = (kvs \<noteq> [])"

text \<open>The code points of a string: a lead byte with the continuation bytes after it.\<close>

definition is_cont :: "char \<Rightarrow> bool" where
  "is_cont c = (128 \<le> (of_char c :: nat) \<and> (of_char c :: nat) < 192)"

function utf8_chars :: "string \<Rightarrow> string list" where
  "utf8_chars [] = []"
| "utf8_chars (c # cs) = (c # takeWhile is_cont cs) # utf8_chars (dropWhile is_cont cs)"
  by pat_completeness auto
termination
  by (relation "measure length") (auto simp: length_dropWhile_le less_Suc_eq_le)

text \<open>\<open>k in v\<close> for a string \<open>k\<close>: key of a dict, substring of a str, element of a list.\<close>

fun is_prefix :: "string \<Rightarrow> string \<Rightarrow> bool" where
  "is_prefix [] ys = True"
| "is_prefix (x # xs) [] = False"
| "is_prefix (x # xs) (y # ys) = (x = y \<and> is_prefix xs ys)"

fun is_substring :: "string \<Rightarrow> string \<Rightarrow> bool" where
  "is_substring k [] = (k = [])"
| "is_substring k (c # cs) = (is_prefix k (c # cs) \<or> is_substring k cs)"

fun py_in :: "string \<Rightarrow> json \<Rightarrow> bool result" where
  "py_in k (JDict kvs) = Inr (k \<in> set (map fst kvs))"
| "py_in k (JStr s) = Inr (is_substring k s)"
| "py_in k (JList xs) = Inr (JStr k \<in> set xs)"
| "py_in k v = Inl (type_error (''argument of type '' @ quote (py_type_name v) @ '' is not iterable''))"

text \<open>\<open>v[k]\<close> for a string \<open>k\<close>, and \<open>v[0]\<close>.\<close>

fun py_getitem :: "json \<Rightarrow> string \<Rightarrow> json result" where
  "py_getitem (JDict kvs) k =
     (case map_of kvs k of None \<Rightarrow> Inl (PyExn ''KeyError'' (quote k)) | Some v \<Rightarrow> Inr v)"
| "py_getitem (JStr s) k = Inl (type_error (''string indices must be integers, not '' @ quote ''str''))"
| "py_getitem (JList xs) k = Inl (type_error ''list indices must be integers or slices, not str'')"
| "py_getitem v k = Inl (not_subscriptable v)"

fun py_getitem0 :: "json \<Rightarrow> json result" where
  "py_getitem0 (JList []) = Inl (PyExn ''IndexError'' ''list index out of range'')"
| "py_getitem0 (JList (x # xs)) = Inr x"
| "py_getitem0 (JStr s) =
     (case utf8_chars s of [] \<Rightarrow> Inl (PyExn ''IndexError'' ''string index out of range'')
      | c # cs \<Rightarrow> Inr (JStr c))"
| "py_getitem0 (JDict kvs) = Inl (PyExn ''KeyError'' ''0'')"
| "py_getitem0 v = Inl (not_subscriptable v)"

text \<open>\<open>v.get(k, d)\<close>: only a dict has the method.\<close>

fun py_get :: "json \<Rightarrow> string \<Rightarrow> json \<Rightarrow> json result" where
  "py_get (JDict kvs) k d = Inr (case map_of kvs k of None \<Rightarrow> d | Some v \<Rightarrow> v)"
| "py_get v k d =
     Inl (PyExn ''AttributeError'' (quote (py_type_name v) @ '' object has no attribute '' @ quote ''get''))"

text \<open>The items a \<open>for\<close> loop visits.\<close>

fun py_iter :: "json \<Rightarrow> json list result" where
  "py_iter (JList xs) = Inr xs"
| "py_iter (JStr s) = Inr (map JStr (utf8_chars s))"
| "py_iter (JDict kvs) = Inr (map JStr (remdups (map fst kvs)))"
| "py_iter v = Inl (type_error (quote (py_type_name v) @ '' object is not iterable''))"

fun py_len :: "json \<Rightarrow> nat result" where
  "py_len (JList xs) = Inr (length xs)"
| "py_len (JStr s) = Inr (length (utf8_chars s))"
| "py_len (JDict kvs) = Inr (length (remdups (map fst kvs)))"
| "py_len v = Inl (type_error (''object of type '' @ quote (py_type_name v) @ '' has no len()''))"

text \<open>The slice \<open>v[:n]\<close>.\<close>

fun py_slice_to :: "nat \<Rightarrow> json \<Rightarrow> json result" where
  "py_slice_to n (JList xs) = Inr (JList (take n xs))"
| "py_slice_to n (JStr s) = Inr (JStr (concat (take n (utf8_chars s))))"
| "py_slice_to n (JDict kvs) = Inl (type_error (''unhashable type: '' @ quote ''slice''))"
| "py_slice_to n v = Inl (not_subscriptable v)"

text \<open>Decimal digits of an integer, as \<open>str\<close> prints it.\<close>

fun show_nat :: "nat \<Rightarrow> string" where
  "show_nat n =
     (if n < 10 then [char_of (48 + n)] else show_nat (n div 10) @ [char_of (48 + n mod 10)])"

definition show_int :: "int \<Rightarrow> string" where
  "show_int i = (if i < 0 then ''-'' @ show_nat (nat (- i)) else show_nat (nat i))"

text \<open>
  \<open>str(v)\<close>, as an f-string interpolates a value. The text of a float, a list or a
  dict is the interpreter's \<open>repr\<close>, which is taken as the parameter \<open>rp\<close>.
\<close>

fun py_str :: "(json \<Rightarrow> string) \<Rightarrow> json \<Rightarrow> string" where
  "py_str rp JNull = ''None''"
| "py_str rp (JBool b) = (if b then ''True'' else ''False'')"
| "py_str rp (JInt i) = show_int i"
| "py_str rp (JStr s) = s"
| "py_str rp v = rp v"

text \<open>\<open>sep.join(items)\<close>: every item must be a str.\<close>

fun join_strs :: "string \<Rightarrow> string list \<Rightarrow> string" where
  "join_strs sep [] = []"
| "join_strs sep [s] = s"
| "join_strs sep (s # t # ss) = s @ sep @ join_strs sep (t # ss)"

fun as_strs :: "nat \<Rightarrow> json list \<Rightarrow> string list result" where
  "as_strs i [] = Inr []"
| "as_strs i (JStr s # vs) = and_then (as_strs (Suc i) vs) (\<lambda>ss. Inr (s # ss))"
| "as_strs i (v # vs) =
     Inl (type_error (''sequence item '' @ show_nat i @ '': expected str instance, ''
            @ py_type_name v @ '' found''))"

definition py_join :: "string \<Rightarrow> json list \<Rightarrow> string result" where
  "py_join sep vs = and_then (as_strs 0 vs) (\<lambda>ss. Inr (join_strs sep ss))"

section \<open>The response interpreter\<close>

text \<open>
  \<open>GuardrailService._parse_assessments\<close>. The list \<open>reasons\<close> the source appends to
  is passed through the loops; each \<open>for\<close> loop is a recursion over the items.
\<close>

definition content_reason :: "(json \<Rightarrow> string) \<Rightarrow> json \<Rightarrow> json \<Rightarrow> json \<Rightarrow> string" where
  "content_reason rp filter_type action confidence =
     ''N'' @ [CHR 0xE1, CHR 0xBB, CHR 0x99] @ ''i dung '' @ py_str rp filter_type @ '': ''
       @ py_str rp action
       @ '' ('' @ [CHR 0xC4, CHR 0x90, CHR 0xE1, CHR 0xBB, CHR 0x99] @ '' tin c''
       @ [CHR 0xE1, CHR 0xBA, CHR 0xAD] @ ''y: '' @ py_str rp confidence @ '')''"

definition pii_reason :: "(json \<Rightarrow> string) \<Rightarrow> json \<Rightarrow> json \<Rightarrow> string" where
  "pii_reason rp entity_type action =
     ''Th'' @ [CHR 0xC3, CHR 0xB4] @ ''ng tin nh'' @ [CHR 0xE1, CHR 0xBA, CHR 0xA1] @ ''y c''
       @ [CHR 0xE1, CHR 0xBA, CHR 0xA3] @ ''m ('' @ py_str rp entity_type @ ''): ''
       @ py_str rp action"

definition regex_reason :: "(json \<Rightarrow> string) \<Rightarrow> json \<Rightarrow> json \<Rightarrow> string" where
  "regex_reason rp name action =
     ''Pattern nh'' @ [CHR 0xE1, CHR 0xBA, CHR 0xA1] @ ''y c'' @ [CHR 0xE1, CHR 0xBA, CHR 0xA3]
       @ ''m ('' @ py_str rp name @ ''): '' @ py_str rp action"

definition words_reason :: "string \<Rightarrow> string" where
  "words_reason word_list =
     ''T'' @ [CHR 0xE1, CHR 0xBB, CHR 0xAB] @ '' b'' @ [CHR 0xE1, CHR 0xBB, CHR 0x8B] @ '' c''
       @ [CHR 0xE1, CHR 0xBA, CHR 0xA5] @ ''m: '' @ word_list"

definition managed_reason :: "nat \<Rightarrow> string" where
  "managed_reason n =
     ''Managed word list: '' @ show_nat n @ '' vi ph'' @ [CHR 0xE1, CHR 0xBA, CHR 0xA1] @ ''m''"

definition topic_reason :: "(json \<Rightarrow> string) \<Rightarrow> json \<Rightarrow> string" where
  "topic_reason rp name =
     ''Ch'' @ [CHR 0xE1, CHR 0xBB, CHR 0xA7] @ '' '' @ [CHR 0xC4, CHR 0x91, CHR 0xE1, CHR 0xBB, CHR 0x81]
       @ '' vi ph'' @ [CHR 0xE1, CHR 0xBA, CHR 0xA1] @ ''m: '' @ py_str rp name"

text \<open>The test \<open>action and action != 'NONE'\<close>.\<close>

definition active :: "json \<Rightarrow> bool" where
  "active action = (py_truthy action \<and> action \<noteq> JStr ''NONE'')"

fun filters_loop :: "(json \<Rightarrow> string) \<Rightarrow> json list \<Rightarrow> string list \<Rightarrow> string list result" where
  "filters_loop rp [] reasons = Inr reasons"
| "filters_loop rp (f # fs) reasons =
     and_then (py_get f ''action'' JNull) (\<lambda>action.
       if active action then
         and_then (py_get f ''type'' (JStr ''Unknown'')) (\<lambda>filter_type.
         and_then (py_get f ''confidence'' (JStr ''N/A'')) (\<lambda>confidence.
         filters_loop rp fs (reasons @ [content_reason rp filter_type action confidence])))
       else filters_loop rp fs reasons)"

fun pii_loop :: "(json \<Rightarrow> string) \<Rightarrow> json list \<Rightarrow> string list \<Rightarrow> string list result" where
  "pii_loop rp [] reasons = Inr reasons"
| "pii_loop rp (entity # es) reasons =
     and_then (py_get entity ''action'' JNull) (\<lambda>action.
       if active action then
         and_then (py_get entity ''type'' (JStr ''Unknown'')) (\<lambda>entity_type.
         pii_loop rp es (reasons @ [pii_reason rp entity_type action]))
       else pii_loop rp es reasons)"

fun regex_loop :: "(json \<Rightarrow> string) \<Rightarrow> json list \<Rightarrow> string list \<Rightarrow> string list result" where
  "regex_loop rp [] reasons = Inr reasons"
| "regex_loop rp (regex # rs) reasons =
     and_then (py_get regex ''action'' JNull) (\<lambda>action.
       if active action then
         and_then (py_get regex ''name'' (JStr ''Unknown'')) (\<lambda>name.
         regex_loop rp rs (reasons @ [regex_reason rp name action]))
       else regex_loop rp rs reasons)"

fun topics_loop :: "(json \<Rightarrow> string) \<Rightarrow> json list \<Rightarrow> string list \<Rightarrow> string list result" where
  "topics_loop rp [] reasons = Inr reasons"
| "topics_loop rp (topic # ts) reasons =
     and_then (py_get topic ''action'' JNull) (\<lambda>action.
       if active action then
         and_then (py_get topic ''name'' (JStr ''Unknown'')) (\<lambda>name.
         topics_loop rp ts (reasons @ [topic_reason rp name]))
       else topics_loop rp ts reasons)"

text \<open>The comprehension \<open>[w.get('match', '') for w in custom_words[:3]]\<close>.\<close>

fun matched_loop :: "json list \<Rightarrow> json list result" where
  "matched_loop [] = Inr []"
| "matched_loop (w # ws) =
     and_then (py_get w ''match'' (JStr [])) (\<lambda>m.
     and_then (matched_loop ws) (\<lambda>ms. Inr (m # ms)))"

definition content_policy :: "(json \<Rightarrow> string) \<Rightarrow> json \<Rightarrow> string list \<Rightarrow> string list result" where
  "content_policy rp assessment reasons =
     and_then (py_in ''contentPolicy'' assessment) (\<lambda>present.
       if present then
         and_then (py_getitem assessment ''contentPolicy'') (\<lambda>cp.
         and_then (py_get cp ''filters'' (JList [])) (\<lambda>filters.
         and_then (py_iter filters) (\<lambda>fs. filters_loop rp fs reasons)))
       else Inr reasons)"

definition sensitive_policy :: "(json \<Rightarrow> string) \<Rightarrow> json \<Rightarrow> string list \<Rightarrow> string list result" where
  "sensitive_policy rp assessment reasons =
     and_then (py_in ''sensitiveInformationPolicy'' assessment) (\<lambda>present.
       if present then
         and_then (py_getitem assessment ''sensitiveInformationPolicy'') (\<lambda>sp.
         and_then (py_get sp ''piiEntities'' (JList [])) (\<lambda>pii_entities.
         and_then (py_iter pii_entities) (\<lambda>es.
         and_then (pii_loop rp es reasons) (\<lambda>reasons1.
         and_then (py_getitem assessment ''sensitiveInformationPolicy'') (\<lambda>sp'.
         and_then (py_get sp' ''regexes'' (JList [])) (\<lambda>regexes.
         and_then (py_iter regexes) (\<lambda>rs. regex_loop rp rs reasons1)))))))
       else Inr reasons)"

definition custom_words_part :: "json \<Rightarrow> string list \<Rightarrow> string list result" where
  "custom_words_part custom_words reasons =
     (if py_truthy custom_words then
        and_then (py_slice_to 3 custom_words) (\<lambda>first3.
        and_then (py_iter first3) (\<lambda>ws.
        and_then (matched_loop ws) (\<lambda>matched.
        and_then (py_join '', '' matched) (\<lambda>word_list.
        and_then (py_len custom_words) (\<lambda>n.
        Inr (reasons @ [words_reason (if n > 3 then word_list @ ''...'' else word_list)]))))))
      else Inr reasons)"

definition managed_lists_part :: "json \<Rightarrow> string list \<Rightarrow> string list result" where
  "managed_lists_part managed_lists reasons =
     (if py_truthy managed_lists then
        and_then (py_len managed_lists) (\<lambda>n. Inr (reasons @ [managed_reason n]))
      else Inr reasons)"

definition word_policy :: "json \<Rightarrow> string list \<Rightarrow> string list result" where
  "word_policy assessment reasons =
     and_then (py_in ''wordPolicy'' assessment) (\<lambda>present.
       if present then
         and_then (py_getitem assessment ''wordPolicy'') (\<lambda>wp.
         and_then (py_get wp ''customWords'' (JList [])) (\<lambda>custom_words.
         and_then (custom_words_part custom_words reasons) (\<lambda>reasons1.
         and_then (py_getitem assessment ''wordPolicy'') (\<lambda>wp'.
         and_then (py_get wp' ''managedWordLists'' (JList [])) (\<lambda>managed_lists.
         managed_lists_part managed_lists reasons1)))))
       else Inr reasons)"

definition topic_policy :: "(json \<Rightarrow> string) \<Rightarrow> json \<Rightarrow> string list \<Rightarrow> string list result" where
  "topic_policy rp assessment reasons =
     and_then (py_in ''topicPolicy'' assessment) (\<lambda>present.
       if present then
         and_then (py_getitem assessment ''topicPolicy'') (\<lambda>tp.
         and_then (py_get tp ''topics'' (JList [])) (\<lambda>topics.
         and_then (py_iter topics) (\<lambda>ts. topics_loop rp ts reasons)))
       else Inr reasons)"

text \<open>The body of the outer loop, for one assessment.\<close>

definition parse_assessment :: "(json \<Rightarrow> string) \<Rightarrow> json \<Rightarrow> string list \<Rightarrow> string list result" where
  "parse_assessment rp assessment reasons =
     and_then (content_policy rp assessment reasons) (\<lambda>r1.
     and_then (sensitive_policy rp assessment r1) (\<lambda>r2.
     and_then (word_policy assessment r2) (\<lambda>r3.
     topic_policy rp assessment r3)))"

fun assessments_loop :: "(json \<Rightarrow> string) \<Rightarrow> json list \<Rightarrow> string list \<Rightarrow> string list result" where
  "assessments_loop rp [] reasons = Inr reasons"
| "assessments_loop rp (assessment # as) reasons =
     and_then (parse_assessment rp assessment reasons) (\<lambda>reasons'. assessments_loop rp as reasons')"

definition parse_assessments :: "(json \<Rightarrow> string) \<Rightarrow> json \<Rightarrow> string list result" where
  "parse_assessments rp assessments =
     and_then (py_iter assessments) (\<lambda>as. assessments_loop rp as [])"

section \<open>The moderation facade\<close>

text \<open>
  The Bedrock client is outside the repository. Its two operations are parameters:
  each gets the calls made so far and the keyword arguments of the call, and returns the
  response or raises. The trace of calls is the only state the service threads through.
\<close>

datatype call = ApplyGuardrail json | Converse json

record bedrock =
  apply_guardrail :: "call list \<Rightarrow> json \<Rightarrow> json result"
  converse :: "call list \<Rightarrow> json \<Rightarrow> json result"

text \<open>The attributes \<open>__init__\<close> reads from the environment.\<close>

record config =
  region :: string
  guardrail_id :: string
  guardrail_version :: string
  model_id :: string

definition guardrail_request :: "config \<Rightarrow> json \<Rightarrow> json" where
  "guardrail_request cfg text =
     JDict [(''guardrailIdentifier'', JStr (guardrail_id cfg)),
            (''guardrailVersion'', JStr (guardrail_version cfg)),
            (''content'', JList [JDict [(''text'', JDict [(''text'', text)])]]),
            (''source'', JStr ''INPUT'')]"

text \<open>
  The arguments of the first log line of \<open>check_content\<close>, \<open>len(text)\<close> and
  \<open>text[:100]\<close>, are evaluated inside the \<open>try\<close>; the line itself has no other effect.
\<close>

definition check_log_line :: "json \<Rightarrow> unit result" where
  "check_log_line text = and_then (py_len text) (\<lambda>_. and_then (py_slice_to 100 text) (\<lambda>_. Inr ()))"

definition masked_text_of :: "json \<Rightarrow> json result" where
  "masked_text_of outputs =
     (if py_truthy outputs then
        and_then (py_len outputs) (\<lambda>n.
          if n > 0 then and_then (py_getitem0 outputs) (\<lambda>out. py_get out ''text'' (JStr []))
          else Inr JNull)
      else Inr JNull)"

definition is_blocked_action :: "json \<Rightarrow> bool" where
  "is_blocked_action action = (action \<in> set [JStr ''BLOCK'', JStr ''GUARDRAIL_INTERVENED''])"

definition violation_default :: string where
  "violation_default =
     ''N'' @ [CHR 0xE1, CHR 0xBB, CHR 0x99] @ ''i dung vi ph'' @ [CHR 0xE1, CHR 0xBA, CHR 0xA1]
       @ ''m ch'' @ [CHR 0xC3, CHR 0xAD] @ ''nh s'' @ [CHR 0xC3, CHR 0xA1] @ ''ch guardrail''"

definition safe_default :: string where
  "safe_default =
     ''N'' @ [CHR 0xE1, CHR 0xBB, CHR 0x99] @ ''i dung an to'' @ [CHR 0xC3, CHR 0xA0] @ ''n''"

definition final_reasons :: "bool \<Rightarrow> string list \<Rightarrow> string list" where
  "final_reasons is_blocked reasons =
     (if is_blocked \<and> reasons = [] then [violation_default]
      else if \<not> is_blocked \<and> reasons = [] then [safe_default]
      else reasons)"

text \<open>The \<open>try\<close> body of \<open>check_content\<close> after the client has answered.\<close>

definition interpret_response :: "(json \<Rightarrow> string) \<Rightarrow> json \<Rightarrow> json \<Rightarrow> json result" where
  "interpret_response rp text response =
     and_then (py_get response ''action'' (JStr ''UNKNOWN'')) (\<lambda>action.
     and_then (py_get response ''assessments'' (JList [])) (\<lambda>assessments.
     and_then (py_get response ''outputs'' (JList [])) (\<lambda>outputs.
     and_then (parse_assessments rp assessments) (\<lambda>reasons.
     and_then (masked_text_of outputs) (\<lambda>masked_text.
       let is_blocked = is_blocked_action action;
           reasons' = final_reasons is_blocked reasons;
           result = [(''success'', JBool True),
                     (''text'', text),
                     (''action'', action),
                     (''reasons'', JList (map JStr reasons')),
                     (''is_blocked'', JBool is_blocked)]
       in Inr (JDict (if py_truthy masked_text
                      then result @ [(''masked_text'', masked_text)] else result)))))))"

text \<open>The \<open>except Exception\<close> branch of \<open>check_content\<close>.\<close>

definition check_failure :: "py_exn \<Rightarrow> json \<Rightarrow> json" where
  "check_failure e text =
     JDict [(''success'', JBool False),
            (''error'', JStr (exn_str e)),
            (''error_type'', JStr (exn_type e)),
            (''text'', text),
            (''is_blocked'', JBool False)]"

definition check_content ::
  "config \<Rightarrow> (json \<Rightarrow> string) \<Rightarrow> bedrock \<Rightarrow> json \<Rightarrow> call list \<Rightarrow> json \<times> call list" where
  "check_content cfg rp br text tr =
     (case check_log_line text of
        Inl e \<Rightarrow> (check_failure e text, tr)
      | Inr _ \<Rightarrow>
          let request = guardrail_request cfg text;
              tr' = tr @ [ApplyGuardrail request]
          in (case apply_guardrail br tr request of
                Inl e \<Rightarrow> (check_failure e text, tr')
              | Inr response \<Rightarrow>
                  (case interpret_response rp text response of
                     Inl e \<Rightarrow> (check_failure e text, tr')
                   | Inr result \<Rightarrow> (result, tr'))))"

subsection \<open>Chat\<close>

definition input_blocked_message :: string where
  "input_blocked_message =
     ''Tin nh'' @ [CHR 0xE1, CHR 0xBA, CHR 0xAF] @ ''n c'' @ [CHR 0xE1, CHR 0xBB, CHR 0xA7]
       @ ''a b'' @ [CHR 0xE1, CHR 0xBA, CHR 0xA1] @ ''n b'' @ [CHR 0xE1, CHR 0xBB, CHR 0x8B]
       @ '' ch'' @ [CHR 0xE1, CHR 0xBA, CHR 0xB7] @ ''n v'' @ [CHR 0xC3, CHR 0xAC] @ '' vi ph''
       @ [CHR 0xE1, CHR 0xBA, CHR 0xA1] @ ''m ch'' @ [CHR 0xC3, CHR 0xAD] @ ''nh s''
       @ [CHR 0xC3, CHR 0xA1] @ ''ch n'' @ [CHR 0xE1, CHR 0xBB, CHR 0x99] @ ''i dung''"

definition output_blocked_message :: string where
  "output_blocked_message =
     ''Ph'' @ [CHR 0xE1, CHR 0xBA, CHR 0xA3] @ ''n h'' @ [CHR 0xE1, CHR 0xBB, CHR 0x93] @ ''i c''
       @ [CHR 0xE1, CHR 0xBB, CHR 0xA7] @ ''a AI b'' @ [CHR 0xE1, CHR 0xBB, CHR 0x8B] @ '' ch''
       @ [CHR 0xE1, CHR 0xBA, CHR 0xB7] @ ''n v'' @ [CHR 0xC3, CHR 0xAC] @ '' vi ph''
       @ [CHR 0xE1, CHR 0xBA, CHR 0xA1] @ ''m ch'' @ [CHR 0xC3, CHR 0xAD] @ ''nh s''
       @ [CHR 0xC3, CHR 0xA1] @ ''ch n'' @ [CHR 0xE1, CHR 0xBB, CHR 0x99] @ ''i dung''"

definition output_blocked_reason :: string where
  "output_blocked_reason = ''Output vi ph'' @ [CHR 0xE1, CHR 0xBA, CHR 0xA1] @ ''m guardrail''"

text \<open>The keyword arguments of \<open>bedrock.converse\<close>; the float \<open>0.7\<close> is \<open>3152519739159347 / 2^52\<close>.\<close>

definition converse_params :: "config \<Rightarrow> json \<Rightarrow> json \<Rightarrow> json" where
  "converse_params cfg message system_prompt =
     (let messages = JList [JDict [(''role'', JStr ''user''),
                                   (''content'', JList [JDict [(''text'', message)]])]];
          guardrail_config = JDict [(''guardrailIdentifier'', JStr (guardrail_id cfg)),
                                    (''guardrailVersion'', JStr (guardrail_version cfg)),
                                    (''trace'', JStr ''enabled'')];
          params = [(''modelId'', JStr (model_id cfg)),
                    (''messages'', messages),
                    (''inferenceConfig'',
                       JDict [(''maxTokens'', JInt 2000),
                              (''temperature'', JFloat 3152519739159347 (- 52))]),
                    (''guardrailConfig'', guardrail_config)]
      in JDict (if py_truthy system_prompt
                then params @ [(''system'', JList [JDict [(''text'', system_prompt)]])]
                else params))"

text \<open>The \<open>except Exception\<close> branch of \<open>chat_with_ai\<close>.\<close>

definition chat_failure :: "py_exn \<Rightarrow> json" where
  "chat_failure e =
     JDict [(''success'', JBool False),
            (''error'', JStr (exn_str e)),
            (''error_type'', JStr (exn_type e))]"

text \<open>Steps 5 and 6: what is made of the model's response.\<close>

definition chat_response :: "json \<Rightarrow> json \<Rightarrow> json \<Rightarrow> json result" where
  "chat_response message input_check response =
     and_then (py_get response ''stopReason'' JNull) (\<lambda>stop_reason.
       if stop_reason = JStr ''guardrail_intervened'' then
         Inr (JDict [(''success'', JBool False),
                     (''message'', JStr output_blocked_message),
                     (''reasons'', JList [JStr output_blocked_reason]),
                     (''input_check'', input_check),
                     (''stop_reason'', stop_reason)])
       else
         and_then (py_getitem response ''output'') (\<lambda>output.
         and_then (py_getitem output ''message'') (\<lambda>msg.
         and_then (py_getitem msg ''content'') (\<lambda>content.
         and_then (py_getitem0 content) (\<lambda>first.
         and_then (py_getitem first ''text'') (\<lambda>ai_response.
         and_then (py_len ai_response) (\<lambda>_.
         Inr (JDict [(''success'', JBool True),
                     (''user_message'', message),
                     (''ai_response'', ai_response),
                     (''is_safe'', JBool True),
                     (''input_check'', input_check),
                     (''stop_reason'', stop_reason)]))))))))"

definition chat_with_ai ::
  "config \<Rightarrow> (json \<Rightarrow> string) \<Rightarrow> bedrock \<Rightarrow> json \<Rightarrow> json \<Rightarrow> call list \<Rightarrow> json \<times> call list" where
  "chat_with_ai cfg rp br message system_prompt tr =
     (case py_slice_to 100 message of
        Inl e \<Rightarrow> (chat_failure e, tr)
      | Inr _ \<Rightarrow>
          let (input_check, tr1) = check_content cfg rp br message tr
          in (case py_get input_check ''is_blocked'' JNull of
                Inl e \<Rightarrow> (chat_failure e, tr1)
              | Inr blocked \<Rightarrow>
                  (if py_truthy blocked then
                     (case py_get input_check ''reasons'' (JList []) of
                        Inl e \<Rightarrow> (chat_failure e, tr1)
                      | Inr reasons \<Rightarrow>
                          (JDict [(''success'', JBool False),
                                  (''message'', JStr input_blocked_message),
                                  (''reasons'', reasons),
                                  (''input_check'', input_check)], tr1))
                   else
                     (let params = converse_params cfg message system_prompt;
                          tr2 = tr1 @ [Converse params]
                      in (case converse br tr1 params of
                            Inl e \<Rightarrow> (chat_failure e, tr2)
                          | Inr response \<Rightarrow>
                              (case chat_response message input_check response of
                                 Inl e \<Rightarrow> (chat_failure e, tr2)
                               | Inr result \<Rightarrow> (result, tr2)))))))"

section \<open>The HTTP routes\<close>

text \<open>
  A route gets the parsed request body (\<open>request.json\<close>) and returns a status and a
  JSON body; an exception it does not catch leaves the route.
\<close>

datatype http_result = Response nat json | Unhandled py_exn

definition bad_request :: "string \<Rightarrow> http_result" where
  "bad_request msg = Response 400 (JDict [(''error'', JStr msg)])"

definition health_check :: http_result where
  "health_check = Response 200 (JDict [(''status'', JStr ''healthy''), (''service'', JStr ''guardrail-api'')])"

definition check ::
  "config \<Rightarrow> (json \<Rightarrow> string) \<Rightarrow> bedrock \<Rightarrow> json \<Rightarrow> call list \<Rightarrow> http_result \<times> call list" where
  "check cfg rp br data tr =
     (if \<not> py_truthy data then (bad_request (''Missing '' @ quote ''text'' @ '' field''), tr)
      else (case py_in ''text'' data of
        Inl e \<Rightarrow> (Unhandled e, tr)
      | Inr present \<Rightarrow>
          (if \<not> present then (bad_request (''Missing '' @ quote ''text'' @ '' field''), tr)
           else (case py_getitem data ''text'' of
             Inl e \<Rightarrow> (Unhandled e, tr)
           | Inr text \<Rightarrow>
               (let (result, tr') = check_content cfg rp br text tr
                in (Response 200 result, tr'))))))"

text \<open>The route calls \<open>chat_with_ai\<close> with the message only: \<open>system_prompt\<close> is \<open>None\<close>.\<close>

definition chat ::
  "config \<Rightarrow> (json \<Rightarrow> string) \<Rightarrow> bedrock \<Rightarrow> json \<Rightarrow> call list \<Rightarrow> http_result \<times> call list" where
  "chat cfg rp br data tr =
     (if \<not> py_truthy data then (bad_request (''Missing '' @ quote ''message'' @ '' field''), tr)
      else (case py_in ''message'' data of
        Inl e \<Rightarrow> (Unhandled e, tr)
      | Inr present \<Rightarrow>
          (if \<not> present then (bad_request (''Missing '' @ quote ''message'' @ '' field''), tr)
           else (case py_getitem data ''message'' of
             Inl e \<Rightarrow> (Unhandled e, tr)
           | Inr message \<Rightarrow>
               (let (result, tr') = chat_with_ai cfg rp br message JNull tr
                in (Response 200 result, tr'))))))"



section \<open>The provider's schema\<close>

text \<open>
  The shape the provider's schema gives an assessment, as far as the interpreter reads
  it: an assessment is a dict in which each of the four policy sections is absent or a
  dict; each list of a section is absent or a list of dicts; and the \<open>match\<close> of a custom
  word is absent or a string. Every other key of an entry may be absent or hold any value.
\<close>

fun is_dict :: "json \<Rightarrow> bool" where
  "is_dict (JDict kvs) = True"
| "is_dict v = False"

fun schema_word :: "json \<Rightarrow> bool" where
  "schema_word (JDict w) =
     (case map_of w ''match'' of None \<Rightarrow> True | Some (JStr s) \<Rightarrow> True | Some v \<Rightarrow> False)"
| "schema_word v = False"

definition schema_entries :: "(json \<Rightarrow> bool) \<Rightarrow> (string \<times> json) list \<Rightarrow> string \<Rightarrow> bool" where
  "schema_entries p sec k =
     (case map_of sec k of None \<Rightarrow> True | Some (JList xs) \<Rightarrow> list_all p xs | Some v \<Rightarrow> False)"

definition schema_section ::
  "((string \<times> json) list \<Rightarrow> bool) \<Rightarrow> (string \<times> json) list \<Rightarrow> string \<Rightarrow> bool" where
  "schema_section p assessment k =
     (case map_of assessment k of None \<Rightarrow> True | Some (JDict sec) \<Rightarrow> p sec | Some v \<Rightarrow> False)"

fun schema_assessment :: "json \<Rightarrow> bool" where
  "schema_assessment (JDict a) =
     (schema_section (\<lambda>sec. schema_entries is_dict sec ''filters'') a ''contentPolicy''
      \<and> schema_section (\<lambda>sec. schema_entries is_dict sec ''piiEntities''
                              \<and> schema_entries is_dict sec ''regexes'') a ''sensitiveInformationPolicy''
      \<and> schema_section (\<lambda>sec. schema_entries schema_word sec ''customWords''
                              \<and> schema_entries is_dict sec ''managedWordLists'') a ''wordPolicy''
      \<and> schema_section (\<lambda>sec. schema_entries is_dict sec ''topics'') a ''topicPolicy'')"
| "schema_assessment v = False"

text \<open>An entry whose \<open>action\<close> is absent, \<open>None\<close>, empty or \<open>"NONE"\<close>.\<close>

definition inactive_entry :: "json \<Rightarrow> bool" where
  "inactive_entry v =
     (case v of JDict e \<Rightarrow> map_of e ''action'' \<in> {None, Some JNull, Some (JStr []), Some (JStr ''NONE'')}
      | _ \<Rightarrow> False)"

section \<open>Fixtures\<close>

text \<open>
  Concrete parameters for evaluating the service: a client that answers every call the
  same way, a \<open>repr\<close> that prints nothing, and a configuration.
\<close>

definition fixed_client :: "json result \<Rightarrow> json result \<Rightarrow> bedrock" where
  "fixed_client g c = \<lparr>apply_guardrail = (\<lambda>tr request. g), converse = (\<lambda>tr params. c)\<rparr>"

definition blank_repr :: "json \<Rightarrow> string" where
  "blank_repr v = []"

definition test_config :: config where
  "test_config = \<lparr>region = ''us-east-1'', guardrail_id = ''gr-1'', guardrail_version = ''1'',
                   model_id = ''anthropic.claude-3-haiku-20240307-v1:0''\<rparr>"

definition intervened_client :: bedrock where
  "intervened_client =
     fixed_client (Inr (JDict [(''action'', JStr ''GUARDRAIL_INTERVENED'')]))
                  (Inl (PyExn ''RuntimeError'' ''converse was called''))"


definition echo_client :: bedrock where
  "echo_client =
     fixed_client (Inr (JDict [(''action'', JStr ''NONE''),
                               (''outputs'', JList [JDict [(''text'', JStr ''hi'')]])]))
                  (Inl (PyExn ''RuntimeError'' ''converse was called''))"


section \<open>Properties of the check operation\<close>

lemma and_then_Inr [simp]: "and_then (Inr x) f = f x"
  by (simp add: and_then_def)

lemma and_then_Inl [simp]: "and_then (Inl e) f = Inl e"
  by (simp add: and_then_def)

lemma and_then_eq_Inr: "and_then m f = Inr y \<longleftrightarrow> (\<exists>x. m = Inr x \<and> f x = Inr y)"
  by (cases m) simp_all

lemmas eval_defs = check_content_def check_log_line_def interpret_response_def
  parse_assessments_def masked_text_of_def is_blocked_action_def final_reasons_def
  fixed_client_def guardrail_request_def test_config_def Let_def

lemma check_failure_not_success:
  "py_get (check_failure e text) ''success'' JNull \<noteq> Inr (JBool True)"
  by (simp add: check_failure_def)

text \<open>A result with \<open>success = True\<close> comes from the end of the \<open>try\<close> body.\<close>

lemma check_content_success:
  assumes "check_content cfg rp br text tr = (r, tr')"
    and "py_get r ''success'' JNull = Inr (JBool True)"
  shows "\<exists>response. apply_guardrail br tr (guardrail_request cfg text) = Inr response
           \<and> interpret_response rp text response = Inr r
           \<and> tr' = tr @ [ApplyGuardrail (guardrail_request cfg text)]"
  using assms check_failure_not_success
  by (auto simp: check_content_def Let_def split: sum.splits)

lemma interpret_response_Inr:
  assumes "interpret_response rp text response = Inr r"
  shows "\<exists>action assessments outputs reasons masked_text.
           py_get response ''action'' (JStr ''UNKNOWN'') = Inr action
         \<and> py_get response ''assessments'' (JList []) = Inr assessments
         \<and> py_get response ''outputs'' (JList []) = Inr outputs
         \<and> parse_assessments rp assessments = Inr reasons
         \<and> masked_text_of outputs = Inr masked_text
         \<and> r = JDict ([(''success'', JBool True), (''text'', text), (''action'', action),
                       (''reasons'', JList (map JStr (final_reasons (is_blocked_action action) reasons))),
                       (''is_blocked'', JBool (is_blocked_action action))]
                      @ (if py_truthy masked_text then [(''masked_text'', masked_text)] else []))"
  using assms
  by (auto simp: interpret_response_def and_then_eq_Inr Let_def)

text \<open>
  C1. In every successful result of \<open>check_content\<close>, \<open>is_blocked\<close> is true if and only
  if the action of the client's response is \<open>"BLOCK"\<close> or \<open>"GUARDRAIL_INTERVENED"\<close>,
  where an absent action counts as \<open>"UNKNOWN"\<close>; for every other action it is false.
\<close>

theorem check_content_blocked_iff:
  assumes "check_content cfg rp br text tr = (r, tr')"
    and "py_get r ''success'' JNull = Inr (JBool True)"
  shows "\<exists>response action.
           apply_guardrail br tr (guardrail_request cfg text) = Inr response
         \<and> py_get response ''action'' (JStr ''UNKNOWN'') = Inr action
         \<and> py_get r ''is_blocked'' JNull
             = Inr (JBool (action = JStr ''BLOCK'' \<or> action = JStr ''GUARDRAIL_INTERVENED''))"
proof -
  from check_content_success [OF assms] obtain response where
    a: "apply_guardrail br tr (guardrail_request cfg text) = Inr response"
    and i: "interpret_response rp text response = Inr r" by blast
  from interpret_response_Inr [OF i] obtain action reasons masked_text where
    g: "py_get response ''action'' (JStr ''UNKNOWN'') = Inr action"
    and r: "r = JDict ([(''success'', JBool True), (''text'', text), (''action'', action),
                       (''reasons'', JList (map JStr (final_reasons (is_blocked_action action) reasons))),
                       (''is_blocked'', JBool (is_blocked_action action))]
                      @ (if py_truthy masked_text then [(''masked_text'', masked_text)] else []))"
    by blast
  have "py_get r ''is_blocked'' JNull = Inr (JBool (is_blocked_action action))"
    unfolding r by simp
  then show ?thesis using a g by (auto simp: is_blocked_action_def)
qed

theorem check_content_blocked_iff_witness:
  "py_get (fst (check_content test_config blank_repr intervened_client (JStr ''hi'') []))
       ''success'' JNull = Inr (JBool True)
   \<and> (\<exists>response action.
         apply_guardrail intervened_client [] (guardrail_request test_config (JStr ''hi''))
           = Inr response
       \<and> py_get response ''action'' (JStr ''UNKNOWN'') = Inr action
       \<and> py_get (fst (check_content test_config blank_repr intervened_client (JStr ''hi'') []))
           ''is_blocked'' JNull
           = Inr (JBool (action = JStr ''BLOCK'' \<or> action = JStr ''GUARDRAIL_INTERVENED'')))"
proof -
  have s: "py_get (fst (check_content test_config blank_repr intervened_client (JStr ''hi'') []))
             ''success'' JNull = Inr (JBool True)"
    by (simp add: eval_defs intervened_client_def)
  show ?thesis
    using s check_content_blocked_iff [OF prod.collapse [symmetric] s] by simp
qed

text \<open>
  C3. In every successful result of \<open>check_content\<close>: when the interpreter collected
  no reasons, the reasons are exactly the policy-violation default if the result is blocked
  and exactly the content-safe default if it is not; collected reasons are kept as they
  are; so the reasons list is never empty.
\<close>

theorem check_content_default_reasons:
  assumes "check_content cfg rp br text tr = (r, tr')"
    and "py_get r ''success'' JNull = Inr (JBool True)"
  shows "\<exists>response assessments reasons blocked.
           apply_guardrail br tr (guardrail_request cfg text) = Inr response
         \<and> py_get response ''assessments'' (JList []) = Inr assessments
         \<and> parse_assessments rp assessments = Inr reasons
         \<and> py_get r ''is_blocked'' JNull = Inr (JBool blocked)
         \<and> (blocked \<and> reasons = [] \<longrightarrow>
               py_get r ''reasons'' JNull = Inr (JList [JStr violation_default]))
         \<and> (\<not> blocked \<and> reasons = [] \<longrightarrow>
               py_get r ''reasons'' JNull = Inr (JList [JStr safe_default]))
         \<and> (reasons \<noteq> [] \<longrightarrow> py_get r ''reasons'' JNull = Inr (JList (map JStr reasons)))
         \<and> py_get r ''reasons'' JNull \<noteq> Inr (JList [])"
proof -
  from check_content_success [OF assms] obtain response where
    a: "apply_guardrail br tr (guardrail_request cfg text) = Inr response"
    and i: "interpret_response rp text response = Inr r" by blast
  from interpret_response_Inr [OF i] obtain action assessments reasons masked_text where
    g: "py_get response ''assessments'' (JList []) = Inr assessments"
    and p: "parse_assessments rp assessments = Inr reasons"
    and r: "r = JDict ([(''success'', JBool True), (''text'', text), (''action'', action),
                       (''reasons'', JList (map JStr (final_reasons (is_blocked_action action) reasons))),
                       (''is_blocked'', JBool (is_blocked_action action))]
                      @ (if py_truthy masked_text then [(''masked_text'', masked_text)] else []))"
    by blast
  have b: "py_get r ''is_blocked'' JNull = Inr (JBool (is_blocked_action action))"
    unfolding r by simp
  have rs: "py_get r ''reasons'' JNull
              = Inr (JList (map JStr (final_reasons (is_blocked_action action) reasons)))"
    unfolding r by simp
  have "final_reasons (is_blocked_action action) reasons \<noteq> []"
    by (simp add: final_reasons_def)
  with a g p b rs show ?thesis
    by (intro exI [of _ response] exI [of _ assessments] exI [of _ reasons]
          exI [of _ "is_blocked_action action"]) (simp add: final_reasons_def)
qed

theorem check_content_default_reasons_witness:
  "py_get (fst (check_content test_config blank_repr intervened_client (JStr ''hi'') []))
       ''success'' JNull = Inr (JBool True)
   \<and> py_get (fst (check_content test_config blank_repr intervened_client (JStr ''hi'') []))
       ''reasons'' JNull = Inr (JList [JStr violation_default])
   \<and> (\<exists>response assessments reasons blocked.
         apply_guardrail intervened_client [] (guardrail_request test_config (JStr ''hi''))
           = Inr response
       \<and> py_get response ''assessments'' (JList []) = Inr assessments
       \<and> parse_assessments blank_repr assessments = Inr reasons
       \<and> py_get (fst (check_content test_config blank_repr intervened_client (JStr ''hi'') []))
           ''is_blocked'' JNull = Inr (JBool blocked)
       \<and> py_get (fst (check_content test_config blank_repr intervened_client (JStr ''hi'') []))
           ''reasons'' JNull \<noteq> Inr (JList []))"
proof -
  have s: "py_get (fst (check_content test_config blank_repr intervened_client (JStr ''hi'') []))
             ''success'' JNull = Inr (JBool True)"
    by (simp add: eval_defs intervened_client_def)
  have v: "py_get (fst (check_content test_config blank_repr intervened_client (JStr ''hi'') []))
             ''reasons'' JNull = Inr (JList [JStr violation_default])"
    by (simp add: eval_defs intervened_client_def)
  show ?thesis
    using s v check_content_default_reasons [OF prod.collapse [symmetric] s] by blast
qed

text \<open>The first log line passes for every string.\<close>

lemma check_log_line_JStr: "check_log_line (JStr s) = Inr ()"
  by (simp add: check_log_line_def)

text \<open>A response the \<open>try\<close> body cannot read is caught in the same way.\<close>

lemma check_content_malformed_response:
  assumes "check_log_line text = Inr ()"
    and "apply_guardrail br tr (guardrail_request cfg text) = Inr response"
    and "interpret_response rp text response = Inl e"
  shows "check_content cfg rp br text tr
           = (check_failure e text, tr @ [ApplyGuardrail (guardrail_request cfg text)])"
  using assms by (simp add: check_content_def Let_def)



text \<open>
  C7, as the code has it. A successful result of \<open>check_content\<close> has the key
  \<open>masked_text\<close> exactly when the client returned a non-empty \<open>outputs\<close> whose first
  entry has a non-empty text, and the field then holds that text. The text is not
  compared with the input for this: an output equal to the input is included too.
\<close>

theorem check_content_masked_text:
  assumes "check_content cfg rp br text tr = (r, tr')"
    and "py_get r ''success'' JNull = Inr (JBool True)"
  shows "\<exists>response outputs masked.
           apply_guardrail br tr (guardrail_request cfg text) = Inr response
         \<and> py_get response ''outputs'' (JList []) = Inr outputs
         \<and> masked_text_of outputs = Inr masked
         \<and> (outputs = JList [] \<longrightarrow> masked = JNull)
         \<and> (\<forall>kvs rest. outputs = JList (JDict kvs # rest) \<longrightarrow>
               masked = (case map_of kvs ''text'' of None \<Rightarrow> JStr [] | Some v \<Rightarrow> v))
         \<and> py_in ''masked_text'' r = Inr (py_truthy masked)
         \<and> (py_truthy masked \<longrightarrow> py_getitem r ''masked_text'' = Inr masked)"
proof -
  from check_content_success [OF assms] obtain response where
    a: "apply_guardrail br tr (guardrail_request cfg text) = Inr response"
    and i: "interpret_response rp text response = Inr r" by blast
  from interpret_response_Inr [OF i] obtain action outputs reasons masked where
    g: "py_get response ''outputs'' (JList []) = Inr outputs"
    and m: "masked_text_of outputs = Inr masked"
    and r: "r = JDict ([(''success'', JBool True), (''text'', text), (''action'', action),
                       (''reasons'', JList (map JStr (final_reasons (is_blocked_action action) reasons))),
                       (''is_blocked'', JBool (is_blocked_action action))]
                      @ (if py_truthy masked then [(''masked_text'', masked)] else []))"
    by blast
  have e: "outputs = JList [] \<longrightarrow> masked = JNull"
    using m by (auto simp: masked_text_of_def)
  have d: "\<forall>kvs rest. outputs = JList (JDict kvs # rest) \<longrightarrow>
               masked = (case map_of kvs ''text'' of None \<Rightarrow> JStr [] | Some v \<Rightarrow> v)"
    using m by (auto simp: masked_text_of_def)
  have k: "py_in ''masked_text'' r = Inr (py_truthy masked)"
    unfolding r by (cases "py_truthy masked") simp_all
  have v: "py_truthy masked \<longrightarrow> py_getitem r ''masked_text'' = Inr masked"
    unfolding r by simp
  from a g m e d k v show ?thesis by blast
qed

theorem check_content_masked_text_witness:
  "py_get (fst (check_content test_config blank_repr echo_client (JStr ''hello'') []))
       ''success'' JNull = Inr (JBool True)
   \<and> py_getitem (fst (check_content test_config blank_repr echo_client (JStr ''hello'') []))
       ''masked_text'' = Inr (JStr ''hi'')
   \<and> (\<exists>response outputs masked.
         apply_guardrail echo_client [] (guardrail_request test_config (JStr ''hello''))
           = Inr response
       \<and> py_get response ''outputs'' (JList []) = Inr outputs
       \<and> masked_text_of outputs = Inr masked
       \<and> py_in ''masked_text''
            (fst (check_content test_config blank_repr echo_client (JStr ''hello'') []))
           = Inr (py_truthy masked))"
proof -
  have s: "py_get (fst (check_content test_config blank_repr echo_client (JStr ''hello'') []))
             ''success'' JNull = Inr (JBool True)"
    by (simp add: eval_defs echo_client_def)
  have v: "py_getitem (fst (check_content test_config blank_repr echo_client (JStr ''hello'') []))
             ''masked_text'' = Inr (JStr ''hi'')"
    by (simp add: eval_defs echo_client_def)
  show ?thesis
    using s v check_content_masked_text [OF prod.collapse [symmetric] s] by blast
qed

text \<open>
  C7, as the claim states it, fails where the client's output text equals the input:
  the client returns \<open>outputs = [{"text": "hi"}]\<close> for the input \<open>"hi"\<close>, and the
  successful result has the key \<open>masked_text\<close>, holding \<open>"hi"\<close>.
\<close>

theorem masked_text_equal_to_input_counterexample:
  "apply_guardrail echo_client [] (guardrail_request test_config (JStr ''hi''))
     = Inr (JDict [(''action'', JStr ''NONE''),
                   (''outputs'', JList [JDict [(''text'', JStr ''hi'')]])])
   \<and> py_get (fst (check_content test_config blank_repr echo_client (JStr ''hi'') []))
       ''success'' JNull = Inr (JBool True)
   \<and> py_in ''masked_text'' (fst (check_content test_config blank_repr echo_client (JStr ''hi'') []))
       = Inr True
   \<and> py_getitem (fst (check_content test_config blank_repr echo_client (JStr ''hi'') []))
       ''masked_text'' = Inr (JStr ''hi'')"
  by (simp add: eval_defs echo_client_def)

section \<open>Properties of the chat operation\<close>

lemma check_content_blocked_success:
  assumes "check_content cfg rp br text tr = (r, tr')"
    and "py_get r ''is_blocked'' JNull = Inr (JBool True)"
  shows "py_get r ''success'' JNull = Inr (JBool True) \<and> check_log_line text = Inr ()"
  using assms
  by (auto simp: check_content_def check_failure_def interpret_response_def and_then_eq_Inr Let_def
        split: sum.splits if_splits)

lemma check_log_line_slice:
  assumes "check_log_line text = Inr ()"
  shows "\<exists>v. py_slice_to 100 text = Inr v"
  using assms by (auto simp: check_log_line_def and_then_eq_Inr)

lemma check_content_converse_update:
  "check_content cfg rp (br\<lparr>converse := c\<rparr>) text tr = check_content cfg rp br text tr"
  by (simp add: check_content_def Let_def split: sum.splits)

text \<open>
  C4. When the input check of \<open>chat_with_ai\<close> reports \<open>is_blocked = True\<close>, the
  call returns \<open>success = False\<close> with the reasons of the input check and the input check
  itself; the only client call it makes is the \<open>apply_guardrail\<close> of the check, so
  \<open>converse\<close> is not invoked, and the result does not depend on what \<open>converse\<close> would
  answer.
\<close>

theorem chat_blocked_input_short_circuit:
  assumes "check_content cfg rp br message tr = (input_check, tr1)"
    and "py_get input_check ''is_blocked'' JNull = Inr (JBool True)"
  shows "\<exists>reasons.
           py_get input_check ''reasons'' (JList []) = Inr reasons
         \<and> chat_with_ai cfg rp br message system_prompt tr
             = (JDict [(''success'', JBool False),
                       (''message'', JStr input_blocked_message),
                       (''reasons'', reasons),
                       (''input_check'', input_check)],
                tr @ [ApplyGuardrail (guardrail_request cfg message)])
         \<and> (\<forall>c. chat_with_ai cfg rp (br\<lparr>converse := c\<rparr>) message system_prompt tr
                 = chat_with_ai cfg rp br message system_prompt tr)"
proof -
  from check_content_blocked_success [OF assms] have
    s: "py_get input_check ''success'' JNull = Inr (JBool True)"
    and l: "check_log_line message = Inr ()" by simp_all
  from check_log_line_slice [OF l] obtain v where v: "py_slice_to 100 message = Inr v" ..
  from check_content_success [OF assms(1) s] obtain response where
    i: "interpret_response rp message response = Inr input_check"
    and t: "tr1 = tr @ [ApplyGuardrail (guardrail_request cfg message)]" by blast
  from interpret_response_Inr [OF i] obtain kvs where d: "input_check = JDict kvs" by blast
  define reasons where "reasons = (case map_of kvs ''reasons'' of None \<Rightarrow> JList [] | Some x \<Rightarrow> x)"
  have g: "py_get input_check ''reasons'' (JList []) = Inr reasons"
    by (simp add: d reasons_def)
  have c: "chat_with_ai cfg rp br message system_prompt tr
             = (JDict [(''success'', JBool False),
                       (''message'', JStr input_blocked_message),
                       (''reasons'', reasons),
                       (''input_check'', input_check)],
                tr @ [ApplyGuardrail (guardrail_request cfg message)])"
    using assms v g t by (simp add: chat_with_ai_def)
  have "chat_with_ai cfg rp (br\<lparr>converse := c'\<rparr>) message system_prompt tr
          = chat_with_ai cfg rp br message system_prompt tr" for c'
    using assms v g t by (simp add: chat_with_ai_def check_content_converse_update)
  with g c show ?thesis by blast
qed

theorem chat_blocked_input_short_circuit_witness:
  "py_get (fst (check_content test_config blank_repr intervened_client (JStr ''hi'') []))
       ''is_blocked'' JNull = Inr (JBool True)
   \<and> py_get (fst (chat_with_ai test_config blank_repr intervened_client (JStr ''hi'') JNull []))
       ''success'' JNull = Inr (JBool False)
   \<and> py_get (fst (chat_with_ai test_config blank_repr intervened_client (JStr ''hi'') JNull []))
       ''reasons'' JNull = Inr (JList [JStr violation_default])
   \<and> snd (chat_with_ai test_config blank_repr intervened_client (JStr ''hi'') JNull [])
       = [ApplyGuardrail (guardrail_request test_config (JStr ''hi''))]"
proof -
  have b: "py_get (fst (check_content test_config blank_repr intervened_client (JStr ''hi'') []))
             ''is_blocked'' JNull = Inr (JBool True)"
    by (simp add: eval_defs intervened_client_def)
  have r: "py_get (fst (check_content test_config blank_repr intervened_client (JStr ''hi'') []))
             ''reasons'' (JList []) = Inr (JList [JStr violation_default])"
    by (simp add: eval_defs intervened_client_def)
  show ?thesis
    using b r chat_blocked_input_short_circuit [OF prod.collapse [symmetric] b, of JNull]
    by auto
qed

section \<open>Properties of the batch route\<close>






section \<open>Properties of the response interpreter\<close>

lemma filters_loop_total:
  "list_all is_dict fs \<Longrightarrow> \<exists>rs. filters_loop rp fs reasons = Inr rs"
proof (induction fs arbitrary: reasons)
  case Nil
  show ?case by simp
next
  case (Cons f fs)
  then obtain kvs where f: "f = JDict kvs" by (cases f) simp_all
  from Cons have "\<And>r. \<exists>rs. filters_loop rp fs r = Inr rs" by simp
  then show ?case by (simp add: f)
qed

lemma pii_loop_total:
  "list_all is_dict es \<Longrightarrow> \<exists>rs. pii_loop rp es reasons = Inr rs"
proof (induction es arbitrary: reasons)
  case Nil
  show ?case by simp
next
  case (Cons e es)
  then obtain kvs where e: "e = JDict kvs" by (cases e) simp_all
  from Cons have "\<And>r. \<exists>rs. pii_loop rp es r = Inr rs" by simp
  then show ?case by (simp add: e)
qed

lemma regex_loop_total:
  "list_all is_dict es \<Longrightarrow> \<exists>rs. regex_loop rp es reasons = Inr rs"
proof (induction es arbitrary: reasons)
  case Nil
  show ?case by simp
next
  case (Cons e es)
  then obtain kvs where e: "e = JDict kvs" by (cases e) simp_all
  from Cons have "\<And>r. \<exists>rs. regex_loop rp es r = Inr rs" by simp
  then show ?case by (simp add: e)
qed

lemma topics_loop_total:
  "list_all is_dict es \<Longrightarrow> \<exists>rs. topics_loop rp es reasons = Inr rs"
proof (induction es arbitrary: reasons)
  case Nil
  show ?case by simp
next
  case (Cons e es)
  then obtain kvs where e: "e = JDict kvs" by (cases e) simp_all
  from Cons have "\<And>r. \<exists>rs. topics_loop rp es r = Inr rs" by simp
  then show ?case by (simp add: e)
qed

lemma as_strs_JStr: "as_strs i (map JStr ss) = Inr ss"
  by (induction ss arbitrary: i) simp_all

lemma py_join_JStr: "py_join sep (map JStr ss) = Inr (join_strs sep ss)"
  by (simp add: py_join_def as_strs_JStr)

lemma matched_loop_terms:
  "list_all2 (\<lambda>w t. py_get w ''match'' (JStr []) = Inr (JStr t)) ws ts
     \<Longrightarrow> matched_loop ws = Inr (map JStr ts)"
  by (induction ws ts rule: list_all2_induct) simp_all

lemma schema_word_term:
  "schema_word w \<Longrightarrow> \<exists>t. py_get w ''match'' (JStr []) = Inr (JStr t)"
  by (cases w) (auto split: option.splits json.splits)

lemma schema_words_terms:
  "list_all schema_word ws
     \<Longrightarrow> \<exists>ts. list_all2 (\<lambda>w t. py_get w ''match'' (JStr []) = Inr (JStr t)) ws ts"
proof (induction ws)
  case Nil
  show ?case by simp
next
  case (Cons w ws)
  then obtain ts where "list_all2 (\<lambda>w t. py_get w ''match'' (JStr []) = Inr (JStr t)) ws ts"
    by auto
  moreover from Cons.prems obtain t where "py_get w ''match'' (JStr []) = Inr (JStr t)"
    using schema_word_term by auto
  ultimately have "list_all2 (\<lambda>w t. py_get w ''match'' (JStr []) = Inr (JStr t)) (w # ws) (t # ts)"
    by simp
  then show ?case by blast
qed

text \<open>What the custom-words step appends, for a list of entries with string matches.\<close>

lemma custom_words_part_list:
  assumes "list_all2 (\<lambda>w t. py_get w ''match'' (JStr []) = Inr (JStr t)) ws ts"
  shows "custom_words_part (JList ws) reasons
           = Inr (reasons @ (if ws = [] then []
                  else [words_reason (join_strs '', '' (take 3 ts)
                                       @ (if length ws > 3 then ''...'' else []))]))"
proof (cases "ws = []")
  case True
  then show ?thesis by (simp add: custom_words_part_def)
next
  case False
  from assms have "list_all2 (\<lambda>w t. py_get w ''match'' (JStr []) = Inr (JStr t)) (take 3 ws) (take 3 ts)"
    by (rule list_all2_takeI)
  then have "matched_loop (take 3 ws) = Inr (map JStr (take 3 ts))"
    by (rule matched_loop_terms)
  with False show ?thesis
    by (simp add: custom_words_part_def py_join_JStr)
qed

lemma managed_lists_part_list:
  "managed_lists_part (JList ms) reasons
     = Inr (reasons @ (if ms = [] then [] else [managed_reason (length ms)]))"
  by (simp add: managed_lists_part_def)





lemma schema_entries_get:
  assumes "schema_entries p sec k"
  shows "\<exists>xs. py_get (JDict sec) k (JList []) = Inr (JList xs) \<and> list_all p xs"
  using assms by (auto simp: schema_entries_def split: option.splits json.splits)

lemma schema_section_getitem:
  assumes "schema_section p a k" and "k \<in> fst ` set a"
  shows "\<exists>sec. py_getitem (JDict a) k = Inr (JDict sec) \<and> p sec"
proof -
  from assms(2) obtain v where "map_of a k = Some v"
    by (metis map_of_eq_None_iff not_Some_eq)
  with assms(1) show ?thesis
    by (auto simp: schema_section_def split: json.splits)
qed

lemma content_policy_total:
  assumes "schema_assessment (JDict a)"
  shows "\<exists>rs. content_policy rp (JDict a) reasons = Inr rs"
proof (cases "''contentPolicy'' \<in> fst ` set a")
  case False
  then show ?thesis by (simp add: content_policy_def)
next
  case True
  from assms have "schema_section (\<lambda>sec. schema_entries is_dict sec ''filters'') a ''contentPolicy''"
    by simp
  from schema_section_getitem [OF this True] obtain sec where
    g: "py_getitem (JDict a) ''contentPolicy'' = Inr (JDict sec)"
    and e: "schema_entries is_dict sec ''filters''" by blast
  from schema_entries_get [OF e] obtain fs where
    f: "py_get (JDict sec) ''filters'' (JList []) = Inr (JList fs)" and d: "list_all is_dict fs"
    by blast
  from filters_loop_total [OF d] obtain rs where "filters_loop rp fs reasons = Inr rs" by blast
  with True g f show ?thesis
    by (simp add: content_policy_def del: py_get.simps py_getitem.simps)
qed

lemma sensitive_policy_total:
  assumes "schema_assessment (JDict a)"
  shows "\<exists>rs. sensitive_policy rp (JDict a) reasons = Inr rs"
proof (cases "''sensitiveInformationPolicy'' \<in> fst ` set a")
  case False
  then show ?thesis by (simp add: sensitive_policy_def)
next
  case True
  from assms have "schema_section (\<lambda>sec. schema_entries is_dict sec ''piiEntities''
                      \<and> schema_entries is_dict sec ''regexes'') a ''sensitiveInformationPolicy''"
    by simp
  from schema_section_getitem [OF this True] obtain sec where
    g: "py_getitem (JDict a) ''sensitiveInformationPolicy'' = Inr (JDict sec)"
    and e1: "schema_entries is_dict sec ''piiEntities''"
    and e2: "schema_entries is_dict sec ''regexes''" by blast
  from schema_entries_get [OF e1] obtain es where
    f1: "py_get (JDict sec) ''piiEntities'' (JList []) = Inr (JList es)" and d1: "list_all is_dict es"
    by blast
  from schema_entries_get [OF e2] obtain xs where
    f2: "py_get (JDict sec) ''regexes'' (JList []) = Inr (JList xs)" and d2: "list_all is_dict xs"
    by blast
  from pii_loop_total [OF d1] obtain r1 where p: "pii_loop rp es reasons = Inr r1" by blast
  from regex_loop_total [OF d2] obtain r2 where "regex_loop rp xs r1 = Inr r2" by blast
  with True g f1 f2 p show ?thesis
    by (simp add: sensitive_policy_def del: py_get.simps py_getitem.simps)
qed

lemma word_policy_total:
  assumes "schema_assessment (JDict a)"
  shows "\<exists>rs. word_policy (JDict a) reasons = Inr rs"
proof (cases "''wordPolicy'' \<in> fst ` set a")
  case False
  then show ?thesis by (simp add: word_policy_def)
next
  case True
  from assms have "schema_section (\<lambda>sec. schema_entries schema_word sec ''customWords''
                      \<and> schema_entries is_dict sec ''managedWordLists'') a ''wordPolicy''"
    by simp
  from schema_section_getitem [OF this True] obtain sec where
    g: "py_getitem (JDict a) ''wordPolicy'' = Inr (JDict sec)"
    and e1: "schema_entries schema_word sec ''customWords''"
    and e2: "schema_entries is_dict sec ''managedWordLists''" by blast
  from schema_entries_get [OF e1] obtain ws where
    f1: "py_get (JDict sec) ''customWords'' (JList []) = Inr (JList ws)"
    and d1: "list_all schema_word ws" by blast
  from schema_entries_get [OF e2] obtain ms where
    f2: "py_get (JDict sec) ''managedWordLists'' (JList []) = Inr (JList ms)" by blast
  from schema_words_terms [OF d1] obtain ts where
    t: "list_all2 (\<lambda>w t. py_get w ''match'' (JStr []) = Inr (JStr t)) ws ts" by blast
  from True g f1 f2 show ?thesis
    by (simp add: word_policy_def custom_words_part_list [OF t] managed_lists_part_list
          del: py_get.simps py_getitem.simps)
qed

lemma topic_policy_total:
  assumes "schema_assessment (JDict a)"
  shows "\<exists>rs. topic_policy rp (JDict a) reasons = Inr rs"
proof (cases "''topicPolicy'' \<in> fst ` set a")
  case False
  then show ?thesis by (simp add: topic_policy_def)
next
  case True
  from assms have "schema_section (\<lambda>sec. schema_entries is_dict sec ''topics'') a ''topicPolicy''"
    by simp
  from schema_section_getitem [OF this True] obtain sec where
    g: "py_getitem (JDict a) ''topicPolicy'' = Inr (JDict sec)"
    and e: "schema_entries is_dict sec ''topics''" by blast
  from schema_entries_get [OF e] obtain ts where
    f: "py_get (JDict sec) ''topics'' (JList []) = Inr (JList ts)" and d: "list_all is_dict ts"
    by blast
  from topics_loop_total [OF d] obtain rs where "topics_loop rp ts reasons = Inr rs" by blast
  with True g f show ?thesis
    by (simp add: topic_policy_def del: py_get.simps py_getitem.simps)
qed

lemma parse_assessment_total:
  assumes "schema_assessment v"
  shows "\<exists>rs. parse_assessment rp v reasons = Inr rs"
proof -
  from assms obtain a where v: "v = JDict a" by (cases v) simp_all
  with assms have s: "schema_assessment (JDict a)" by simp
  from content_policy_total [OF s] obtain r1 where
    1: "content_policy rp (JDict a) reasons = Inr r1" by blast
  from sensitive_policy_total [OF s] obtain r2 where
    2: "sensitive_policy rp (JDict a) r1 = Inr r2" by blast
  from word_policy_total [OF s] obtain r3 where
    3: "word_policy (JDict a) r2 = Inr r3" by blast
  from topic_policy_total [OF s] obtain r4 where
    4: "topic_policy rp (JDict a) r3 = Inr r4" by blast
  from 1 2 3 4 show ?thesis by (simp add: parse_assessment_def v)
qed

lemma assessments_loop_total:
  "list_all schema_assessment xs \<Longrightarrow> \<exists>rs. assessments_loop rp xs reasons = Inr rs"
proof (induction xs arbitrary: reasons)
  case Nil
  show ?case by simp
next
  case (Cons x xs)
  then have "schema_assessment x" by simp
  from parse_assessment_total [OF this] obtain r where
    "parse_assessment rp x reasons = Inr r" by blast
  moreover from Cons obtain rs where "assessments_loop rp xs r = Inr rs" by auto
  ultimately show ?case by simp
qed

text \<open>Outside the schema the interpreter can raise: here a section holds \<open>None\<close>.\<close>

lemma parse_assessments_raises_outside_schema:
  "parse_assessments rp (JList [JDict [(''contentPolicy'', JNull)]])
     = Inl (PyExn ''AttributeError''
              (quote ''NoneType'' @ '' object has no attribute '' @ quote ''get''))"
  by (simp add: parse_assessments_def parse_assessment_def content_policy_def)

text \<open>
  C8. On every assessment list that follows the provider's schema, each section and each
  entry key being present or absent, \<open>_parse_assessments\<close> returns a reason list and
  raises nothing; on the empty assessment list it returns the empty list.
\<close>

theorem parse_assessments_total:
  "(list_all schema_assessment assessments
      \<longrightarrow> (\<exists>reasons. parse_assessments rp (JList assessments) = Inr reasons))
   \<and> parse_assessments rp (JList []) = Inr []"
  using assessments_loop_total [of assessments rp "[]"]
  by (simp add: parse_assessments_def)

theorem parse_assessments_total_witness:
  "list_all schema_assessment
     [JDict [(''contentPolicy'', JDict [(''filters'', JList [JDict [(''action'', JStr ''BLOCKED'')]])]),
             (''wordPolicy'', JDict [(''customWords'', JList [JDict []])])],
      JDict []]
   \<and> (\<exists>reasons.
         parse_assessments blank_repr
           (JList [JDict [(''contentPolicy'',
                             JDict [(''filters'', JList [JDict [(''action'', JStr ''BLOCKED'')]])]),
                          (''wordPolicy'', JDict [(''customWords'', JList [JDict []])])],
                   JDict []])
           = Inr reasons)
   \<and> parse_assessments blank_repr (JList []) = Inr []"
proof -
  have h: "list_all schema_assessment
     [JDict [(''contentPolicy'', JDict [(''filters'', JList [JDict [(''action'', JStr ''BLOCKED'')]])]),
             (''wordPolicy'', JDict [(''customWords'', JList [JDict []])])],
      JDict []]"
    by (simp add: schema_section_def schema_entries_def)
  show ?thesis
    using h parse_assessments_total [of
       "[JDict [(''contentPolicy'', JDict [(''filters'', JList [JDict [(''action'', JStr ''BLOCKED'')]])]),
                (''wordPolicy'', JDict [(''customWords'', JList [JDict []])])],
         JDict []]" blank_repr]
    by blast
qed

lemma inactive_absent [simp]: "\<not> active JNull" "\<not> active (JStr [])" "\<not> active (JStr ''NONE'')"
  by (simp_all add: active_def)

text \<open>
  C10. In the content-policy, PII-entity, regex and topic-policy loops, an entry whose
  \<open>action\<close> is absent, \<open>None\<close> or the empty string adds no reason, as one whose action
  is \<open>"NONE"\<close>: the loop goes on with the reasons unchanged.
\<close>

theorem inactive_action_contributes_no_reason:
  assumes "map_of e ''action'' \<in> {None, Some JNull, Some (JStr []), Some (JStr ''NONE'')}"
  shows "filters_loop rp (JDict e # rest) reasons = filters_loop rp rest reasons
       \<and> pii_loop rp (JDict e # rest) reasons = pii_loop rp rest reasons
       \<and> regex_loop rp (JDict e # rest) reasons = regex_loop rp rest reasons
       \<and> topics_loop rp (JDict e # rest) reasons = topics_loop rp rest reasons"
  using assms by auto

theorem inactive_action_contributes_no_reason_witness:
  "map_of [(''type'', JStr ''HATE'')] ''action''
       \<in> {None, Some JNull, Some (JStr []), Some (JStr ''NONE'')}
   \<and> filters_loop blank_repr [JDict [(''type'', JStr ''HATE'')]] [] = Inr []
   \<and> pii_loop blank_repr [JDict [(''type'', JStr ''HATE'')]] [] = Inr []
   \<and> regex_loop blank_repr [JDict [(''type'', JStr ''HATE'')]] [] = Inr []
   \<and> topics_loop blank_repr [JDict [(''type'', JStr ''HATE'')]] [] = Inr []"
proof -
  have h: "map_of [(''type'', JStr ''HATE'')] ''action''
             \<in> {None, Some JNull, Some (JStr []), Some (JStr ''NONE'')}"
    by simp
  have e: "filters_loop blank_repr [] [] = Inr []" "pii_loop blank_repr [] [] = Inr []"
    "regex_loop blank_repr [] [] = Inr []" "topics_loop blank_repr [] [] = Inr []"
    by simp_all
  show ?thesis
    using h inactive_action_contributes_no_reason [OF h, of blank_repr "[]" "[]"]
    unfolding e by blast
qed

text \<open>
  In the four loops that test the action, a list whose entries all have an inactive
  action leaves the reasons as they were.
\<close>

lemma inactive_entry_action:
  assumes "inactive_entry v"
  shows "\<exists>action. py_get v ''action'' JNull = Inr action \<and> \<not> active action"
  using assms by (cases v) (auto simp: inactive_entry_def)

lemma filters_loop_all_inactive:
  "list_all inactive_entry fs \<Longrightarrow> filters_loop rp fs reasons = Inr reasons"
proof (induction fs)
  case Nil
  show ?case by simp
next
  case (Cons f fs)
  then have "inactive_entry f" by simp
  from inactive_entry_action [OF this] Cons show ?case by auto
qed

lemma pii_loop_all_inactive:
  "list_all inactive_entry es \<Longrightarrow> pii_loop rp es reasons = Inr reasons"
proof (induction es)
  case Nil
  show ?case by simp
next
  case (Cons e es)
  then have "inactive_entry e" by simp
  from inactive_entry_action [OF this] Cons show ?case by auto
qed

lemma regex_loop_all_inactive:
  "list_all inactive_entry es \<Longrightarrow> regex_loop rp es reasons = Inr reasons"
proof (induction es)
  case Nil
  show ?case by simp
next
  case (Cons e es)
  then have "inactive_entry e" by simp
  from inactive_entry_action [OF this] Cons show ?case by auto
qed

lemma topics_loop_all_inactive:
  "list_all inactive_entry es \<Longrightarrow> topics_loop rp es reasons = Inr reasons"
proof (induction es)
  case Nil
  show ?case by simp
next
  case (Cons e es)
  then have "inactive_entry e" by simp
  from inactive_entry_action [OF this] Cons show ?case by auto
qed

text \<open>
  C2 at a word-policy entry. The only entry of this assessment list is a custom word whose
  action is \<open>"NONE"\<close>; the word-policy branch does not read the action, and the
  interpreter returns the reason for the word.
\<close>

theorem custom_word_with_action_none_reported:
  "parse_assessments blank_repr
     (JList [JDict [(''wordPolicy'',
        JDict [(''customWords'',
          JList [JDict [(''match'', JStr ''x''), (''action'', JStr ''NONE'')]])])]])
   = Inr [words_reason ''x'']"
  by (simp add: parse_assessments_def parse_assessment_def content_policy_def
        sensitive_policy_def word_policy_def topic_policy_def custom_words_part_def
        managed_lists_part_def py_join_def)

end
